theory Spec2Isabelle
  imports Complex_Main
begin

section \<open>JavaScript values\<close>

text \<open>
  The server (index.js) receives its inputs as parsed JSON: the body of a POST, the
  \<open>arguments\<close> of a \<open>tools/call\<close> request, the arguments a chat model asks for. A
  number is a JavaScript number: finite (every finite double is a rational), \<open>NaN\<close> or an
  infinity. An object is the list of its properties; reading a property is \<open>map_of\<close>.

  A string is a list of code units. A HOL character has 256 values, read here as the code
  points U+0000 to U+00FF; on these, SQLite's byte comparison of the UTF-8 encodings is
  the comparison of the code points, and \<open>String.prototype.trim\<close> removes exactly the
  seven characters of \<open>is_whitespace\<close>.
\<close>

datatype jsnum = Finite rat | NaN | Infinity bool

datatype json =
    JUndefined
  | JNull
  | JBool bool
  | JNum jsnum
  | JStr string
  | JArr "json list"
  | JObj "(string \<times> json) list"

text \<open>The truth value of a value under \<open>!v\<close>, \<open>v || d\<close> and \<open>if (v)\<close>.\<close>

fun truthy :: "json \<Rightarrow> bool" where
  "truthy JUndefined = False"
| "truthy JNull = False"
| "truthy (JBool b) = b"
| "truthy (JNum (Finite q)) = (q \<noteq> 0)"
| "truthy (JNum NaN) = False"
| "truthy (JNum (Infinity _)) = True"
| "truthy (JStr s) = (s \<noteq> [])"
| "truthy (JArr _) = True"
| "truthy (JObj _) = True"

text \<open>
  \<open>const { k } = v\<close> for a \<open>v\<close> that is not null or undefined (the handlers destructure
  \<open>v || {}\<close>): the property of an object, and \<open>undefined\<close> for a property that is absent
  and for the primitives and arrays, which have no property of the names read here.
\<close>

fun get_prop :: "json \<Rightarrow> string \<Rightarrow> json" where
  "get_prop (JObj kvs) k = (case map_of kvs k of None \<Rightarrow> JUndefined | Some v \<Rightarrow> v)"
| "get_prop _ k = JUndefined"

definition or_empty_object :: "json \<Rightarrow> json" where
  "or_empty_object v = (if truthy v then v else JObj [])"

text \<open>\<open>typeof value === 'number' && Number.isInteger(value)\<close>.\<close>

fun is_integer_number :: "json \<Rightarrow> bool" where
  "is_integer_number (JNum (Finite q)) = (of_int \<lfloor>q\<rfloor> = q)"
| "is_integer_number _ = False"

fun integer_of :: "json \<Rightarrow> int" where
  "integer_of (JNum (Finite q)) = \<lfloor>q\<rfloor>"
| "integer_of _ = 0"

definition is_whitespace :: "char \<Rightarrow> bool" where
  "is_whitespace c = ((of_char c :: nat) \<in> {9, 10, 11, 12, 13, 32, 160})"

definition trim :: "string \<Rightarrow> string" where
  "trim s = rev (dropWhile is_whitespace (rev (dropWhile is_whitespace s)))"

text \<open>\<open>typeof description === 'string' && description.trim()\<close>.\<close>

fun is_nonblank_string :: "json \<Rightarrow> bool" where
  "is_nonblank_string (JStr s) = (trim s \<noteq> [])"
| "is_nonblank_string _ = False"

fun string_of :: "json \<Rightarrow> string" where
  "string_of (JStr s) = s"
| "string_of _ = []"

text \<open>\<open>String(n)\<close> of an integer: its decimal digits, with a minus sign below zero.\<close>

definition digit :: "nat \<Rightarrow> char" where
  "digit n = ''0123456789'' ! (n mod 10)"

fun digits :: "nat \<Rightarrow> string" where
  "digits n = (if n < 10 then [digit n] else digits (n div 10) @ [digit n])"

definition String_of_int :: "int \<Rightarrow> string" where
  "String_of_int i = (if i < 0 then CHR ''-'' # digits (nat (- i)) else digits (nat i))"

text \<open>The number that a text of decimal digits denotes.\<close>

definition decimal_value :: "string \<Rightarrow> nat" where
  "decimal_value s = foldl (\<lambda>a c. 10 * a + (of_char c - 48)) 0 s"

text \<open>The comparison of two TEXT values in SQLite (BINARY collation): \<open>a <= b\<close>.\<close>

fun text_le :: "string \<Rightarrow> string \<Rightarrow> bool" where
  "text_le [] b = True"
| "text_le (x # a) [] = False"
| "text_le (x # a) (y # b) =
     (if (of_char x :: nat) < of_char y then True
      else if (of_char y :: nat) < of_char x then False
      else text_le a b)"

text \<open>An exception: \<open>e.response.data\<close> when the thrower set it, and \<open>String(e)\<close>.\<close>

datatype exn = Exn (response_data: "json option") (message_of: string)

section \<open>The entry store\<close>

text \<open>
  The table \<open>entries\<close> (id INTEGER PRIMARY KEY AUTOINCREMENT, value INTEGER, description
  TEXT, created_at TEXT) as the list of its rows, with the last row id SQLite handed out.
  Values are mathematical integers: SQLite's 64-bit range and the precision of a double
  are outside this model.
\<close>

record entry =
  entry_id :: int
  entry_value :: int
  entry_description :: string
  entry_created_at :: string

record db =
  entries :: "entry list"
  lastInsertRowid :: int

text \<open>\<open>insertEntry\<close>; \<open>now\<close> is \<open>new Date().toISOString()\<close> at the call.\<close>

definition insertEntry :: "string \<Rightarrow> db \<Rightarrow> int \<Rightarrow> string \<Rightarrow> entry \<times> db" where
  "insertEntry now d v description =
     (let createdAt = now;
          rowid = lastInsertRowid d + 1;
          e = \<lparr>entry_id = rowid, entry_value = v, entry_description = description,
               entry_created_at = createdAt\<rparr>
      in (e, d\<lparr>entries := entries d @ [e], lastInsertRowid := rowid\<rparr>))"

text \<open>The rows of \<open>WHERE created_at >= ? AND created_at <= ?\<close>.\<close>

definition in_range :: "string \<Rightarrow> string \<Rightarrow> entry \<Rightarrow> bool" where
  "in_range from to e = (text_le from (entry_created_at e) \<and> text_le (entry_created_at e) to)"

text \<open>\<open>SUM(value)\<close> is NULL over no row.\<close>

definition sql_sum :: "int list \<Rightarrow> int option" where
  "sql_sum vs = (if vs = [] then None else Some (sum_list vs))"

text \<open>\<open>sumEntries\<close> on two strings: \<open>COALESCE(SUM(value), 0)\<close>, then \<open>row.total || 0\<close>.\<close>

definition sumRange :: "db \<Rightarrow> string \<Rightarrow> string \<Rightarrow> int" where
  "sumRange d from to =
     (let tot = (case sql_sum (map entry_value (filter (in_range from to) (entries d))) of
                     None \<Rightarrow> 0 | Some t \<Rightarrow> t)
      in if tot \<noteq> 0 then tot else 0)"

text \<open>
  \<open>sumEntries\<close> passes \<open>from\<close> and \<open>to\<close> to the prepared statement as they are. What the
  SQLite driver does with a bound value that is not a string (it throws, or compares some
  text) is not code of this repository: it is the parameter \<open>bind\<close>.
\<close>

definition bind_text :: "(json \<Rightarrow> exn + string) \<Rightarrow> json \<Rightarrow> exn + string" where
  "bind_text bind v = (case v of JStr s \<Rightarrow> Inr s | _ \<Rightarrow> bind v)"

definition sumEntries :: "(json \<Rightarrow> exn + string) \<Rightarrow> db \<Rightarrow> json \<Rightarrow> json \<Rightarrow> exn + int" where
  "sumEntries bind d from to =
     (case bind_text bind from of
        Inl e \<Rightarrow> Inl e
      | Inr f \<Rightarrow>
          (case bind_text bind to of
             Inl e \<Rightarrow> Inl e
           | Inr t \<Rightarrow> Inr (sumRange d f t)))"

text \<open>The entry as the object \<open>{ id, value, description, created_at }\<close>.\<close>

definition entry_json :: "entry \<Rightarrow> json" where
  "entry_json e =
     JObj [(''id'', JNum (Finite (of_int (entry_id e)))),
           (''value'', JNum (Finite (of_int (entry_value e)))),
           (''description'', JStr (entry_description e)),
           (''created_at'', JStr (entry_created_at e))]"

section \<open>The tools\<close>

text \<open>
  A \<open>tools/call\<close> result: \<open>{ content: [{ type: 'text', text }], isError? }\<close>. A result
  of another server may hold content that is not text.
\<close>

datatype content = TextContent string | OtherContent json

record call_tool_result =
  content :: "content list"
  isError :: "bool option"

definition text_result :: "string \<Rightarrow> call_tool_result" where
  "text_result t = \<lparr>content = [TextContent t], isError = None\<rparr>"

definition error_result :: "string \<Rightarrow> call_tool_result" where
  "error_result t = \<lparr>content = [TextContent t], isError = Some True\<rparr>"

text \<open>A template literal prints an undefined name as \<open>undefined\<close>.\<close>

definition name_text :: "string option \<Rightarrow> string" where
  "name_text name = (case name of None \<Rightarrow> ''undefined'' | Some n \<Rightarrow> n)"

text \<open>
  The handler of \<open>CallToolRequestSchema\<close>. \<open>stringify\<close> is \<open>JSON.stringify\<close>, \<open>now\<close> the
  clock at the call; the handler throws where \<open>sumEntries\<close> does.
\<close>

definition call_tool_handler ::
  "(json \<Rightarrow> exn + string) \<Rightarrow> (json \<Rightarrow> string) \<Rightarrow> string \<Rightarrow> db \<Rightarrow>
   string option \<Rightarrow> json \<Rightarrow> (exn + call_tool_result) \<times> db" where
  "call_tool_handler bind stringify now d name args =
     (if name = Some ''store'' then
        (let a = or_empty_object args;
             v = get_prop a ''value'';
             description = get_prop a ''description''
         in if \<not> is_integer_number v then (Inr (error_result ''value must be integer''), d)
            else if \<not> is_nonblank_string description
              then (Inr (error_result ''description is required''), d)
            else (case insertEntry now d (integer_of v) (string_of description) of
                    (e, d') \<Rightarrow> (Inr (text_result (stringify (entry_json e))), d')))
      else if name = Some ''sum'' then
        (let a = or_empty_object args;
             from = get_prop a ''from'';
             to = get_prop a ''to''
         in if \<not> truthy from \<or> \<not> truthy to
              then (Inr (error_result ''from and to are required (ISO datetime)''), d)
            else (case sumEntries bind d from to of
                    Inl e \<Rightarrow> (Inl e, d)
                  | Inr tot \<Rightarrow> (Inr (text_result (String_of_int tot)), d)))
      else (Inr (error_result (''Unknown tool: '' @ name_text name)), d))"

section \<open>The REST endpoints\<close>

text \<open>
  A response is its status and what is sent: a text (\<open>res.send\<close>), or an object as JSON
  (an error, a failed chat, an entry, a total, the turn of the assistant). A query
  parameter, as Express parses it, is a string, an array or an object, and absent when the
  query does not have it.
\<close>

datatype tool_log = ToolLog (log_name: "string option") (log_args: json) (log_output: string)

datatype body =
    Text string
  | Error string
  | ChatFailed json
  | EntryBody entry
  | TotalBody int
  | Assistant string string "tool_log list"

datatype response = Response (status: nat) (body_of: body)

datatype qval = QStr string | QArr "qval list" | QObj "(string \<times> qval) list"





text \<open>\<open>POST /api/tools/store\<close>.\<close>

definition post_store :: "string \<Rightarrow> db \<Rightarrow> json \<Rightarrow> response \<times> db" where
  "post_store now d req_body =
     (let b = or_empty_object req_body;
          v = get_prop b ''value'';
          description = get_prop b ''description''
      in if \<not> is_integer_number v then (Response 400 (Error ''value must be an integer''), d)
         else if \<not> is_nonblank_string description
           then (Response 400 (Error ''description is required''), d)
         else (case insertEntry now d (integer_of v) (string_of description) of
                 (e, d') \<Rightarrow> (Response 200 (EntryBody e), d')))"


section \<open>The session registry\<close>

text \<open>
  \<open>transports\<close>, the map of the open SSE transports by session id. \<open>GET /sse\<close> checks
  the token (when \<open>MCP_AUTH_TOKEN\<close> is set), registers the new transport under its id,
  and its close handler deletes that id.
\<close>

type_synonym 't registry = "string \<rightharpoonup> 't"

definition bearer_of :: "string \<Rightarrow> string" where
  "bearer_of authHeader = (if take 7 authHeader = ''Bearer '' then drop 7 authHeader else [])"

definition authorized :: "string option \<Rightarrow> string \<Rightarrow> qval option \<Rightarrow> bool" where
  "authorized requiredToken authHeader queryToken =
     (case requiredToken of
        None \<Rightarrow> True
      | Some tok \<Rightarrow>
          tok = [] \<or> \<not> (bearer_of authHeader \<noteq> tok \<and> queryToken \<noteq> Some (QStr tok)))"

definition sse_connect ::
  "string option \<Rightarrow> string \<Rightarrow> qval option \<Rightarrow> string \<Rightarrow> 't \<Rightarrow> 't registry \<Rightarrow>
   response option \<times> 't registry" where
  "sse_connect requiredToken authHeader queryToken sessionId transport transports =
     (if \<not> authorized requiredToken authHeader queryToken
        then (Some (Response 401 (Text ''Unauthorized'')), transports)
      else (None, transports(sessionId \<mapsto> transport)))"

definition sse_close :: "string \<Rightarrow> 't registry \<Rightarrow> 't registry" where
  "sse_close sessionId transports = transports(sessionId := None)"

text \<open>
  \<open>POST /messages\<close>: the request is answered with 400, or handed to the transport found
  under the session id of the query.
\<close>

datatype 't dispatch = Rejected response | Routed 't

definition post_messages :: "'t registry \<Rightarrow> qval option \<Rightarrow> 't dispatch" where
  "post_messages transports sessionId =
     (case sessionId of
        Some (QStr sid) \<Rightarrow>
          (case transports sid of
             None \<Rightarrow> Rejected (Response 400 (Error ''No transport for sessionId''))
           | Some transport \<Rightarrow> Routed transport)
      | _ \<Rightarrow> Rejected (Response 400 (Error ''Bad session id'')))"

text \<open>
  The life of the registry, from the start of the process: the requests of \<open>GET /sse\<close>
  (header, query token, the id and the transport of the connection) and the connections
  that closed, in order.
\<close>

datatype 't event = Connect string "qval option" string 't | Close string

fun apply_event :: "string option \<Rightarrow> 't registry \<Rightarrow> 't event \<Rightarrow> 't registry" where
  "apply_event requiredToken transports (Connect authHeader queryToken sid t) =
     snd (sse_connect requiredToken authHeader queryToken sid t transports)"
| "apply_event requiredToken transports (Close sid) = sse_close sid transports"

definition run_events :: "string option \<Rightarrow> 't event list \<Rightarrow> 't registry" where
  "run_events requiredToken evs = foldl (apply_event requiredToken) Map.empty evs"

text \<open>An id is issued by a connection that was accepted.\<close>

fun issued :: "string option \<Rightarrow> string \<Rightarrow> 't event list \<Rightarrow> bool" where
  "issued requiredToken sid [] = False"
| "issued requiredToken sid (Connect authHeader queryToken s t # evs) =
     ((s = sid \<and> authorized requiredToken authHeader queryToken) \<or> issued requiredToken sid evs)"
| "issued requiredToken sid (Close s # evs) = issued requiredToken sid evs"

text \<open>A session is closed when its id was closed and not issued again after that.\<close>

fun closed :: "string option \<Rightarrow> string \<Rightarrow> 't event list \<Rightarrow> bool" where
  "closed requiredToken sid [] = False"
| "closed requiredToken sid (Connect authHeader queryToken s t # evs) = closed requiredToken sid evs"
| "closed requiredToken sid (Close s # evs) =
     ((s = sid \<and> \<not> issued requiredToken sid evs) \<or> closed requiredToken sid evs)"

section \<open>The chat endpoint\<close>

text \<open>
  What the chat model answers: \<open>completion.choices?.[0]?.message\<close>, its \<open>content\<close> and its
  \<open>tool_calls\<close>, each with an \<open>id\<close> and a \<open>function\<close> of a \<open>name\<close> and an \<open>arguments\<close>
  string. Every part may be absent.
\<close>

datatype fn_call = FnCall (fn_name: "string option") (fn_arguments: "string option")

datatype tool_call = ToolCall (tc_id: "string option") (tc_function: "fn_call option")

datatype message = Message (msg_content: "string option") (msg_tool_calls: "tool_call list option")

datatype completion = Completion (choices: "message option list option")

definition first_message :: "completion \<Rightarrow> message option" where
  "first_message c =
     (case choices c of None \<Rightarrow> None | Some [] \<Rightarrow> None | Some (m # _) \<Rightarrow> m)"

text \<open>
  A turn of the conversation: one the client sent in \<open>messages\<close> (passed on as it came),
  the user turn built from \<open>message\<close>, and the assistant and tool turns the loop appends.
\<close>

datatype turn =
    Given json
  | UserTurn string
  | AssistantTurn string "tool_call list option"
  | ToolTurn string "string option"

datatype tool_descriptor =
  ToolDescriptor (tool_name: string) (tool_description: string) (inputSchema: json)

definition toolsList :: "tool_descriptor list" where
  "toolsList =
     [ToolDescriptor ''store'' ''Store an integer value with description and timestamp''
        (JObj [(''type'', JStr ''object''),
               (''properties'', JObj [(''value'', JObj [(''type'', JStr ''integer'')]),
                                      (''description'', JObj [(''type'', JStr ''string'')])]),
               (''required'', JArr [JStr ''value'', JStr ''description''])]),
      ToolDescriptor ''sum'' ''Sum values between ISO datetime range [from, to]''
        (JObj [(''type'', JStr ''object''),
               (''properties'', JObj [(''from'', JObj [(''type'', JStr ''string'')]),
                                      (''to'', JObj [(''type'', JStr ''string'')])]),
               (''required'', JArr [JStr ''from'', JStr ''to''])])]"

text \<open>
  What the handler of \<open>/api/chat\<close> calls and does not define: the configuration, the chat
  model and the MCP session, whose server has a state of its own (\<open>'s\<close>).
  \<^item> \<open>DEFAULT_MODEL\<close>;
  \<^item> \<open>createOpenAIClient\<close> throws when the API key is missing;
  \<^item> \<open>connectMcpClient\<close> throws, or the session is open on a server in some state;
  \<^item> \<open>listMcpTools\<close> throws or returns the tools;
  \<^item> \<open>mcp.request\<close> of a \<open>tools/call\<close> throws or returns a result, and the server moves on;
  \<^item> \<open>mcp.close\<close> may throw;
  \<^item> \<open>openai.chat.completions.create\<close>: the answer to the \<open>i\<close>-th call of the request
    (from 0), given the messages sent with it; it may throw;
  \<^item> \<open>JSON.parse\<close> throws or returns the value, and \<open>JSON.stringify\<close> of a result.
\<close>

record 's chat_env =
  DEFAULT_MODEL :: string
  createOpenAIClient :: "exn option"
  connectMcpClient :: "exn + 's"
  listMcpTools :: "'s \<Rightarrow> exn + tool_descriptor list"
  mcp_call :: "'s \<Rightarrow> string option \<Rightarrow> json \<Rightarrow> (exn + call_tool_result) \<times> 's"
  mcp_close :: "'s \<Rightarrow> exn option"
  create_completion :: "nat \<Rightarrow> turn list \<Rightarrow> exn + completion"
  JSON_parse :: "string \<Rightarrow> exn + json"
  JSON_stringify :: "call_tool_result \<Rightarrow> string"

datatype tool_output = ToolOutput (out_isError: bool) (out_text: string)

text \<open>The loop of \<open>callMcpTool\<close> over \<open>res.content\<close>.\<close>

fun text_of_content :: "content list \<Rightarrow> string" where
  "text_of_content [] = []"
| "text_of_content (TextContent t # cs) =
     (if t \<noteq> [] then t @ [CHR 0x0A] @ text_of_content cs else text_of_content cs)"
| "text_of_content (OtherContent _ # cs) = text_of_content cs"

definition flatten_result :: "(call_tool_result \<Rightarrow> string) \<Rightarrow> call_tool_result \<Rightarrow> tool_output" where
  "flatten_result stringify res =
     (let text = text_of_content (content res);
          text = (if text = [] then stringify res else text)
      in ToolOutput (case isError res of None \<Rightarrow> False | Some b \<Rightarrow> b) (trim text))"

definition callMcpTool ::
  "'s chat_env \<Rightarrow> 's \<Rightarrow> string option \<Rightarrow> json \<Rightarrow> (exn + tool_output) \<times> 's" where
  "callMcpTool env s name args =
     (case mcp_call env s name (or_empty_object args) of
        (Inl e, s') \<Rightarrow> (Inl e, s')
      | (Inr res, s') \<Rightarrow> (Inr (flatten_result (JSON_stringify env) res), s'))"

text \<open>\<open>tc.function?.name\<close> and \<open>tc.function?.arguments ? JSON.parse(...) : {}\<close>.\<close>

definition call_name :: "tool_call \<Rightarrow> string option" where
  "call_name tc = (case tc_function tc of None \<Rightarrow> None | Some f \<Rightarrow> fn_name f)"

definition call_args :: "'s chat_env \<Rightarrow> tool_call \<Rightarrow> exn + json" where
  "call_args env tc =
     (case tc_function tc of
        None \<Rightarrow> Inr (JObj [])
      | Some f \<Rightarrow>
          (case fn_arguments f of
             None \<Rightarrow> Inr (JObj [])
           | Some a \<Rightarrow> if a = [] then Inr (JObj []) else JSON_parse env a))"

text \<open>
  \<open>for (const tc of toolCalls)\<close>: one call after the other, each on the state the one
  before left; an exception ends the loop, and the server keeps the state it reached.
\<close>

fun run_tool_calls ::
  "'s chat_env \<Rightarrow> tool_call list \<Rightarrow> 's \<Rightarrow> tool_log list \<Rightarrow> turn list \<Rightarrow>
   (exn + tool_log list \<times> turn list) \<times> 's" where
  "run_tool_calls env [] s toolLogs toolMessages = (Inr (toolLogs, toolMessages), s)"
| "run_tool_calls env (tc # tcs) s toolLogs toolMessages =
     (let name = call_name tc in
      case call_args env tc of
        Inl e \<Rightarrow> (Inl e, s)
      | Inr args \<Rightarrow>
          (case callMcpTool env s name args of
             (Inl e, s') \<Rightarrow> (Inl e, s')
           | (Inr out, s') \<Rightarrow>
               run_tool_calls env tcs s'
                 (toolLogs @ [ToolLog name args (out_text out)])
                 (toolMessages @ [ToolTurn (out_text out) (tc_id tc)])))"

text \<open>The calls of a round reach the server one after the other, in their order.\<close>

fun session_after :: "'s chat_env \<Rightarrow> 's \<Rightarrow> tool_call list \<Rightarrow> 's" where
  "session_after env s [] = s"
| "session_after env s (tc # tcs) =
     (case call_args env tc of
        Inl e \<Rightarrow> s
      | Inr args \<Rightarrow>
          session_after env (snd (mcp_call env s (call_name tc) (or_empty_object args))) tcs)"

definition sentinel :: "'s chat_env \<Rightarrow> tool_log list \<Rightarrow> response" where
  "sentinel env toolLogs =
     Response 200 (Assistant ''(stopped after max tool iterations)'' (DEFAULT_MODEL env) toolLogs)"

definition content_or_empty :: "message \<Rightarrow> string" where
  "content_or_empty msg = (case msg_content msg of None \<Rightarrow> [] | Some c \<Rightarrow> c)"

definition tool_calls_or_empty :: "message \<Rightarrow> tool_call list" where
  "tool_calls_or_empty msg = (case msg_tool_calls msg of None \<Rightarrow> [] | Some tcs \<Rightarrow> tcs)"

text \<open>
  What a run of the loop leaves: the response sent or the exception thrown, the state of
  the MCP server, and the messages of every call of the chat model so far, in order.
\<close>

record 's run =
  outcome :: "exn + response"
  session :: 's
  sent :: "turn list list"

text \<open>
  \<open>while (guard < 5)\<close>, entered with the completion of the call before it. The call of
  the chat model that ends a round is the call number \<open>length sent\<close>.
\<close>

function chat_loop ::
  "'s chat_env \<Rightarrow> nat \<Rightarrow> completion \<Rightarrow> turn list \<Rightarrow> tool_log list \<Rightarrow> 's \<Rightarrow>
   turn list list \<Rightarrow> 's run" where
  "chat_loop env guard completion messages toolLogs s calls =
     (if guard < 5 then
        (case first_message completion of
           None \<Rightarrow> \<lparr>outcome = Inr (sentinel env toolLogs), session = s, sent = calls\<rparr>
         | Some msg \<Rightarrow>
             (let toolCalls = tool_calls_or_empty msg in
              if toolCalls = [] then
                \<lparr>outcome = Inr (Response 200
                    (Assistant (content_or_empty msg) (DEFAULT_MODEL env) toolLogs)),
                 session = s, sent = calls\<rparr>
              else
                (case run_tool_calls env toolCalls s toolLogs [] of
                   (Inl e, s') \<Rightarrow> \<lparr>outcome = Inl e, session = s', sent = calls\<rparr>
                 | (Inr (toolLogs', toolMessages), s') \<Rightarrow>
                     (let messages' =
                            messages
                            @ [AssistantTurn (content_or_empty msg) (msg_tool_calls msg)]
                            @ toolMessages
                      in case create_completion env (length calls) messages' of
                           Inl e \<Rightarrow>
                             \<lparr>outcome = Inl e, session = s', sent = calls @ [messages']\<rparr>
                         | Inr completion' \<Rightarrow>
                             chat_loop env (guard + 1) completion' messages' toolLogs' s'
                               (calls @ [messages'])))))
      else \<lparr>outcome = Inr (sentinel env toolLogs), session = s, sent = calls\<rparr>)"
  by pat_completeness auto
termination
  by (relation "measure (\<lambda>(env, guard, completion, messages, toolLogs, s, calls). 5 - guard)")
     auto

declare chat_loop.simps [simp del]

text \<open>The messages the request starts from, when it has any.\<close>

definition initial_messages :: "json \<Rightarrow> turn list option" where
  "initial_messages req_body =
     (let b = or_empty_object req_body;
          message = get_prop b ''message'';
          messages = get_prop b ''messages''
      in if \<not> truthy messages \<and> is_nonblank_string message
           then Some [UserTurn (trim (string_of message))]
         else (case messages of
                 JArr ms \<Rightarrow> if ms = [] then None else Some (map Given ms)
               | _ \<Rightarrow> None))"

text \<open>\<open>e?.response?.data || String(e)\<close>.\<close>

definition detail :: "exn \<Rightarrow> json" where
  "detail e =
     (case response_data e of
        None \<Rightarrow> JStr (message_of e)
      | Some d \<Rightarrow> if truthy d then d else JStr (message_of e))"

definition chat_failed :: "exn \<Rightarrow> response" where
  "chat_failed e = Response 500 (ChatFailed (detail e))"

text \<open>The inner \<open>try\<close> block, on an open session.\<close>

definition chat_session :: "'s chat_env \<Rightarrow> turn list \<Rightarrow> 's \<Rightarrow> 's run" where
  "chat_session env messages s =
     (case listMcpTools env s of
        Inl e \<Rightarrow> \<lparr>outcome = Inl e, session = s, sent = []\<rparr>
      | Inr mcpTools \<Rightarrow>
          if mcpTools = [] then
            \<lparr>outcome = Inr (Response 500 (Error ''No MCP tools available'')), session = s,
             sent = []\<rparr>
          else
            (case create_completion env 0 messages of
               Inl e \<Rightarrow> \<lparr>outcome = Inl e, session = s, sent = [messages]\<rparr>
             | Inr completion \<Rightarrow> chat_loop env 0 completion messages [] s [messages]))"

text \<open>
  \<open>finally { await mcp.close() }\<close> and the outer \<open>catch\<close>. A response the block returned
  has been sent when the session closes; an exception of the block is replaced by the one
  \<open>mcp.close\<close> throws.
\<close>

definition close_and_catch :: "'s chat_env \<Rightarrow> 's run \<Rightarrow> response" where
  "close_and_catch env r =
     (case outcome r of
        Inr resp \<Rightarrow> resp
      | Inl e \<Rightarrow>
          (case mcp_close env (session r) of
             None \<Rightarrow> chat_failed e
           | Some e' \<Rightarrow> chat_failed e'))"

text \<open>
  \<open>app.post('/api/chat')\<close>: the response, the messages of each call of the chat model,
  and the state of the MCP server if the session was opened.
\<close>

record 's chat_result =
  response_of :: response
  model_calls :: "turn list list"
  final_session :: "'s option"

definition chat :: "'s chat_env \<Rightarrow> json \<Rightarrow> 's chat_result" where
  "chat env req_body =
     (case initial_messages req_body of
        None \<Rightarrow>
          \<lparr>response_of =
             Response 400 (Error ''Provide `message` or non-empty `messages` array.''),
           model_calls = [], final_session = None\<rparr>
      | Some messages \<Rightarrow>
          (case createOpenAIClient env of
             Some e \<Rightarrow> \<lparr>response_of = chat_failed e, model_calls = [], final_session = None\<rparr>
           | None \<Rightarrow>
               (case connectMcpClient env of
                  Inl e \<Rightarrow>
                    \<lparr>response_of = chat_failed e, model_calls = [], final_session = None\<rparr>
                | Inr s \<Rightarrow>
                    (let r = chat_session env messages s
                     in \<lparr>response_of = close_and_catch env r, model_calls = sent r,
                         final_session = Some (session r)\<rparr>))))"

section \<open>Example data\<close>

text \<open>
  A database of two entries; a driver that throws on every value that is not a string, as
  better-sqlite3 does on a boolean, an array or an object; a stand-in for
  \<open>JSON.stringify\<close> that shows the description of an entry.
\<close>

definition demo_db :: db where
  "demo_db =
     \<lparr>entries = [\<lparr>entry_id = 1, entry_value = 4, entry_description = ''a'',
                   entry_created_at = ''2023-03-01T10:00:00.000Z''\<rparr>,
                 \<lparr>entry_id = 2, entry_value = 7, entry_description = ''b'',
                   entry_created_at = ''2024-03-01T10:00:00.000Z''\<rparr>],
       lastInsertRowid = 2\<rparr>"

definition empty_db :: db where
  "empty_db = \<lparr>entries = [], lastInsertRowid = 0\<rparr>"

definition throwing_bind :: "json \<Rightarrow> exn + string" where
  "throwing_bind v = Inl (Exn None ''TypeError: SQLite3 can only bind numbers, strings'')"

definition demo_stringify :: "json \<Rightarrow> string" where
  "demo_stringify j =
     (case get_prop j ''description'' of JStr s \<Rightarrow> ''{entry '' @ s @ ''}'' | _ \<Rightarrow> ''{}'')"

text \<open>
  A request served by this server itself: the MCP session reaches \<open>call_tool_handler\<close> on
  a database that starts empty, and each call reads the next time of the clock (a list
  of times, one for each call to come).
\<close>

definition local_call ::
  "db \<times> string list \<Rightarrow> string option \<Rightarrow> json \<Rightarrow> (exn + call_tool_result) \<times> db \<times> string list" where
  "local_call s name args =
     (case s of
        (d, clock) \<Rightarrow>
          (case call_tool_handler throwing_bind demo_stringify
                  (case clock of [] \<Rightarrow> [] | now # _ \<Rightarrow> now) d name args of
             (r, d') \<Rightarrow> (r, d', tl clock)))"

definition demo_parse :: "string \<Rightarrow> exn + json" where
  \<open>demo_parse a =
     (if a = ''{"value":7,"description":"demo"}''
        then Inr (JObj [(''value'', JNum (Finite 7)), (''description'', JStr ''demo'')])
      else if a = ''{"from":"2024-04-30T10:00:00.000Z","to":"2024-05-01T10:00:05.000Z"}''
        then Inr (JObj [(''from'', JStr ''2024-04-30T10:00:00.000Z''),
                        (''to'', JStr ''2024-05-01T10:00:05.000Z'')])
      else if a = ''{"from":true,"to":true}''
        then Inr (JObj [(''from'', JBool True), (''to'', JBool True)])
      else Inl (Exn None ''SyntaxError: Unexpected token''))\<close>

definition local_env :: "(nat \<Rightarrow> turn list \<Rightarrow> exn + completion) \<Rightarrow> (db \<times> string list) chat_env" where
  "local_env model =
     \<lparr>DEFAULT_MODEL = ''gpt-4o-mini'',
      createOpenAIClient = None,
      connectMcpClient = Inr (empty_db, [''2024-05-01T10:00:01.000Z'', ''2024-05-01T10:00:02.000Z'']),
      listMcpTools = (\<lambda>s. Inr toolsList),
      mcp_call = local_call,
      mcp_close = (\<lambda>s. None),
      create_completion = model,
      JSON_parse = demo_parse,
      JSON_stringify = (\<lambda>r. ''{}'')\<rparr>"

definition demo_request :: json where
  "demo_request = JObj [(''message'', JStr ''Store value 7 called demo, then sum last 24h'')]"

text \<open>Chat models: what each answers to its \<open>i\<close>-th call.\<close>

definition assistant_calls :: "tool_call list \<Rightarrow> completion" where
  "assistant_calls tcs = Completion (Some [Some (Message None (Some tcs))])"

definition assistant_says :: "string \<Rightarrow> completion" where
  "assistant_says text = Completion (Some [Some (Message (Some text) None)])"

definition store_call :: tool_call where
  \<open>store_call =
     ToolCall (Some ''call_1'')
       (Some (FnCall (Some ''store'') (Some ''{"value":7,"description":"demo"}'')))\<close>

definition sum_call :: tool_call where
  \<open>sum_call =
     ToolCall (Some ''call_2'')
       (Some (FnCall (Some ''sum'')
          (Some ''{"from":"2024-04-30T10:00:00.000Z","to":"2024-05-01T10:00:05.000Z"}'')))\<close>


definition store_then_sum_model :: "nat \<Rightarrow> turn list \<Rightarrow> exn + completion" where
  "store_then_sum_model i ms =
     (if i = 0 then Inr (assistant_calls [store_call, sum_call])
      else Inr (assistant_says ''Stored 7 as demo; the sum of the last 24h is 7.''))"

definition store_then_silent_model :: "nat \<Rightarrow> turn list \<Rightarrow> exn + completion" where
  "store_then_silent_model i ms =
     (if i = 0 then Inr (assistant_calls [store_call]) else Inr (Completion (Some [])))"





text \<open>
  A chat model that asks for the tool \<open>loop\<close> whatever it is sent, on a session whose
  server answers every call with an error result and counts the calls.
\<close>

definition looping_env :: "nat chat_env" where
  "looping_env =
     \<lparr>DEFAULT_MODEL = ''gpt-4o-mini'',
      createOpenAIClient = None,
      connectMcpClient = Inr 0,
      listMcpTools = (\<lambda>s. Inr toolsList),
      mcp_call = (\<lambda>s name args. (Inr (error_result (''Unknown tool: '' @ name_text name)), s + 1)),
      mcp_close = (\<lambda>s. None),
      create_completion =
        (\<lambda>i ms. Inr (assistant_calls [ToolCall (Some ''call'') (Some (FnCall (Some ''loop'') None))])),
      JSON_parse = (\<lambda>a. Inr (JObj [])),
      JSON_stringify = (\<lambda>r. ''{}'')\<rparr>"


section \<open>Properties of the store and of the tools\<close>

lemma digit_value: "decimal_value [digit n] = n mod 10"
proof -
  have "k < 10 \<Longrightarrow> (of_char (''0123456789'' ! k) :: nat) - 48 = k" for k
    by (auto simp add: less_Suc_eq numeral_eq_Suc nth_Cons')
  then show ?thesis
    by (simp add: decimal_value_def digit_def)
qed

lemma decimal_value_snoc:
  "decimal_value (s @ [c]) = 10 * decimal_value s + decimal_value [c]"
  by (simp add: decimal_value_def)

text \<open>The digits printed for a number denote that number.\<close>

lemma decimal_value_digits: "decimal_value (digits n) = n"
proof (induction n rule: digits.induct)
  case (1 n)
  show ?case
  proof (cases "n < 10")
    case True
    then show ?thesis by (simp add: digit_value)
  next
    case False
    with 1 have "decimal_value (digits (n div 10)) = n div 10" by simp
    with False show ?thesis
      by (subst digits.simps) (simp add: decimal_value_snoc digit_value)
  qed
qed

lemma sumRange_sum_list:
  "sumRange d f t = sum_list (map entry_value (filter (in_range f t) (entries d)))"
  by (simp add: sumRange_def sql_sum_def Let_def)

lemma sumEntries_strings: "sumEntries bind d (JStr f) (JStr t) = Inr (sumRange d f t)"
  by (simp add: sumEntries_def bind_text_def)


lemma floor_seven_halves: "\<lfloor>7 / 2 :: rat\<rfloor> = 3"
  by (rule floor_unique) simp_all


lemma post_store_cases:
  "post_store now d b =
     (if \<not> is_integer_number (get_prop (or_empty_object b) ''value'')
        then (Response 400 (Error ''value must be an integer''), d)
      else if \<not> is_nonblank_string (get_prop (or_empty_object b) ''description'')
        then (Response 400 (Error ''description is required''), d)
      else (Response 200 (EntryBody (fst (insertEntry now d
                (integer_of (get_prop (or_empty_object b) ''value''))
                (string_of (get_prop (or_empty_object b) ''description''))))),
            snd (insertEntry now d
                (integer_of (get_prop (or_empty_object b) ''value''))
                (string_of (get_prop (or_empty_object b) ''description'')))))"
  by (simp add: post_store_def Let_def split: prod.splits)

lemma store_tool_cases:
  "call_tool_handler bind stringify now d (Some ''store'') b =
     (if \<not> is_integer_number (get_prop (or_empty_object b) ''value'')
        then (Inr (error_result ''value must be integer''), d)
      else if \<not> is_nonblank_string (get_prop (or_empty_object b) ''description'')
        then (Inr (error_result ''description is required''), d)
      else (Inr (text_result (stringify (entry_json (fst (insertEntry now d
                (integer_of (get_prop (or_empty_object b) ''value''))
                (string_of (get_prop (or_empty_object b) ''description''))))))),
            snd (insertEntry now d
                (integer_of (get_prop (or_empty_object b) ''value''))
                (string_of (get_prop (or_empty_object b) ''description'')))))"
  by (simp add: call_tool_handler_def Let_def split: prod.splits)




text \<open>
  C3. On the tool surface a value that is not an integer number is reported with the text
  \<open>value must be integer\<close>, where the REST endpoint, on the same input, reports
  \<open>value must be an integer\<close>.
\<close>

theorem store_value_error_text:
  "\<not> is_integer_number (get_prop (or_empty_object args) ''value'') \<Longrightarrow>
   call_tool_handler bind stringify now d (Some ''store'') args =
     (Inr \<lparr>content = [TextContent ''value must be integer''], isError = Some True\<rparr>, d)
   \<and> post_store now d args = (Response 400 (Error ''value must be an integer''), d)"
  by (simp add: post_store_cases store_tool_cases error_result_def)

theorem store_value_error_text_witness:
  "\<not> is_integer_number (get_prop (or_empty_object
        (JObj [(''value'', JNum (Finite (7 / 2))), (''description'', JStr ''x'')])) ''value'')
   \<and> call_tool_handler throwing_bind demo_stringify ''2024-05-01T10:00:00.000Z'' demo_db
        (Some ''store'') (JObj [(''value'', JNum (Finite (7 / 2))), (''description'', JStr ''x'')]) =
     (Inr \<lparr>content = [TextContent ''value must be integer''], isError = Some True\<rparr>, demo_db)
   \<and> post_store ''2024-05-01T10:00:00.000Z'' demo_db
        (JObj [(''value'', JNum (Finite (7 / 2))), (''description'', JStr ''x'')]) =
     (Response 400 (Error ''value must be an integer''), demo_db)"
  using store_value_error_text [where bind = throwing_bind and stringify = demo_stringify
      and now = "''2024-05-01T10:00:00.000Z''" and d = demo_db
      and args = "JObj [(''value'', JNum (Finite (7 / 2))), (''description'', JStr ''x'')]"]
  by (simp add: or_empty_object_def floor_seven_halves)










section \<open>Properties of the session registry\<close>

lemma never_issued_absent:
  "\<not> issued req sid evs \<Longrightarrow> m sid = None \<Longrightarrow> foldl (apply_event req) m evs sid = None"
proof (induction evs arbitrary: m)
  case Nil
  then show ?case by simp
next
  case (Cons ev evs)
  then show ?case
    by (cases ev) (auto simp add: sse_connect_def sse_close_def)
qed

lemma closed_absent:
  "closed req sid evs \<Longrightarrow> foldl (apply_event req) m evs sid = None"
proof (induction evs arbitrary: m)
  case Nil
  then show ?case by simp
next
  case (Cons ev evs)
  show ?case
  proof (cases ev)
    case (Connect h q s t)
    with Cons show ?thesis by simp
  next
    case (Close s)
    show ?thesis
    proof (cases "closed req sid evs")
      case True
      with Cons.IH show ?thesis by (simp add: Close)
    next
      case False
      with Cons.prems Close have "s = sid" and "\<not> issued req sid evs" by auto
      then show ?thesis
        by (simp add: Close sse_close_def never_issued_absent)
    qed
  qed
qed

text \<open>
  C5. A message is handed to a transport only when its session id is a string and the
  transport is the one registered under exactly that id; every other message is answered
  with status 400. After any sequence of connections and closes, a message for an id that
  no accepted connection was given, or whose connection has closed, is answered with
  status 400: it is not dropped and it reaches no transport.
\<close>

theorem dispatch_by_session_id:
  "(post_messages transports q = Routed t \<longrightarrow>
      (\<exists>sid. q = Some (QStr sid) \<and> transports sid = Some t))
   \<and> ((\<forall>t'. post_messages transports q \<noteq> Routed t') \<longrightarrow>
      (\<exists>msg. post_messages transports q = Rejected (Response 400 (Error msg))))
   \<and> (\<not> issued requiredToken sid evs \<or> closed requiredToken sid evs \<longrightarrow>
      post_messages (run_events requiredToken evs) (Some (QStr sid)) =
        Rejected (Response 400 (Error ''No transport for sessionId'')))"
proof -
  have gone: "\<not> issued requiredToken sid evs \<or> closed requiredToken sid evs \<Longrightarrow>
      run_events requiredToken evs sid = None"
    unfolding run_events_def using never_issued_absent closed_absent by fastforce
  have routed: "post_messages transports q = Routed t \<Longrightarrow>
      \<exists>sid. q = Some (QStr sid) \<and> transports sid = Some t"
    by (auto simp add: post_messages_def split: option.splits qval.splits)
  have rejected: "(\<forall>t'. post_messages transports q \<noteq> Routed t') \<Longrightarrow>
      \<exists>msg. post_messages transports q = Rejected (Response 400 (Error msg))"
    by (auto simp add: post_messages_def split: option.splits qval.splits)
  show ?thesis
    using gone routed rejected by (auto simp add: post_messages_def)
qed

theorem dispatch_by_session_id_witness:
  "post_messages [''a'' \<mapsto> (1::nat), ''b'' \<mapsto> 2] (Some (QStr ''b'')) = Routed 2
   \<and> post_messages [''a'' \<mapsto> (1::nat), ''b'' \<mapsto> 2] (Some (QStr ''c'')) =
       Rejected (Response 400 (Error ''No transport for sessionId''))
   \<and> post_messages [''a'' \<mapsto> (1::nat), ''b'' \<mapsto> 2] None =
       Rejected (Response 400 (Error ''Bad session id''))
   \<and> closed (Some ''secret'') ''a''
        [Connect ''Bearer secret'' None ''a'' (1::nat), Connect [] None ''x'' 3,
         Connect [] (Some (QStr ''secret'')) ''b'' 2, Close ''a'']
   \<and> post_messages (run_events (Some ''secret'')
          [Connect ''Bearer secret'' None ''a'' (1::nat), Connect [] None ''x'' 3,
           Connect [] (Some (QStr ''secret'')) ''b'' 2, Close ''a''])
        (Some (QStr ''a'')) = Rejected (Response 400 (Error ''No transport for sessionId''))
   \<and> \<not> issued (Some ''secret'') ''x''
        [Connect ''Bearer secret'' None ''a'' (1::nat), Connect [] None ''x'' 3,
         Connect [] (Some (QStr ''secret'')) ''b'' 2, Close ''a'']
   \<and> post_messages (run_events (Some ''secret'')
          [Connect ''Bearer secret'' None ''a'' (1::nat), Connect [] None ''x'' 3,
           Connect [] (Some (QStr ''secret'')) ''b'' 2, Close ''a''])
        (Some (QStr ''x'')) = Rejected (Response 400 (Error ''No transport for sessionId''))
   \<and> post_messages (run_events (Some ''secret'')
          [Connect ''Bearer secret'' None ''a'' (1::nat), Connect [] None ''x'' 3,
           Connect [] (Some (QStr ''secret'')) ''b'' 2, Close ''a''])
        (Some (QStr ''b'')) = Routed 2"
  using
    dispatch_by_session_id [where transports = "[''a'' \<mapsto> (1::nat), ''b'' \<mapsto> 2]"
      and q = "Some (QStr ''b'')" and t = 2 and requiredToken = "Some ''secret''"
      and sid = "''a''"
      and evs = "[Connect ''Bearer secret'' None ''a'' (1::nat), Connect [] None ''x'' 3,
           Connect [] (Some (QStr ''secret'')) ''b'' 2, Close ''a'']"]
    dispatch_by_session_id [where transports = "[''a'' \<mapsto> (1::nat), ''b'' \<mapsto> 2]"
      and q = "Some (QStr ''c'')" and t = 2 and requiredToken = "Some ''secret''"
      and sid = "''x''"
      and evs = "[Connect ''Bearer secret'' None ''a'' (1::nat), Connect [] None ''x'' 3,
           Connect [] (Some (QStr ''secret'')) ''b'' 2, Close ''a'']"]
  by (simp add: post_messages_def run_events_def sse_connect_def sse_close_def authorized_def
      bearer_of_def)


section \<open>Properties of the chat loop\<close>

lemma chat_loop_exhausted:
  "\<not> guard < 5 \<Longrightarrow>
   chat_loop env guard c ms logs s calls =
     \<lparr>outcome = Inr (sentinel env logs), session = s, sent = calls\<rparr>"
  by (subst chat_loop.simps) simp

lemma chat_loop_no_message:
  "first_message c = None \<Longrightarrow>
   chat_loop env guard c ms logs s calls =
     \<lparr>outcome = Inr (sentinel env logs), session = s, sent = calls\<rparr>"
  by (subst chat_loop.simps) simp

lemma chat_loop_answer:
  "guard < 5 \<Longrightarrow> first_message c = Some msg \<Longrightarrow> tool_calls_or_empty msg = [] \<Longrightarrow>
   chat_loop env guard c ms logs s calls =
     \<lparr>outcome = Inr (Response 200 (Assistant (content_or_empty msg) (DEFAULT_MODEL env) logs)),
      session = s, sent = calls\<rparr>"
  by (subst chat_loop.simps) simp

lemma chat_loop_tool_throws:
  "guard < 5 \<Longrightarrow> first_message c = Some msg \<Longrightarrow> tool_calls_or_empty msg \<noteq> [] \<Longrightarrow>
   run_tool_calls env (tool_calls_or_empty msg) s logs [] = (Inl e, s') \<Longrightarrow>
   chat_loop env guard c ms logs s calls = \<lparr>outcome = Inl e, session = s', sent = calls\<rparr>"
  by (subst chat_loop.simps) simp

lemma chat_loop_model_throws:
  "guard < 5 \<Longrightarrow> first_message c = Some msg \<Longrightarrow> tool_calls_or_empty msg \<noteq> [] \<Longrightarrow>
   run_tool_calls env (tool_calls_or_empty msg) s logs [] = (Inr (logs', tms), s') \<Longrightarrow>
   create_completion env (length calls)
     (ms @ [AssistantTurn (content_or_empty msg) (msg_tool_calls msg)] @ tms) = Inl e \<Longrightarrow>
   chat_loop env guard c ms logs s calls =
     \<lparr>outcome = Inl e, session = s',
      sent = calls @ [ms @ [AssistantTurn (content_or_empty msg) (msg_tool_calls msg)] @ tms]\<rparr>"
  by (subst chat_loop.simps) simp

lemma chat_loop_round:
  "guard < 5 \<Longrightarrow> first_message c = Some msg \<Longrightarrow> tool_calls_or_empty msg \<noteq> [] \<Longrightarrow>
   run_tool_calls env (tool_calls_or_empty msg) s logs [] = (Inr (logs', tms), s') \<Longrightarrow>
   create_completion env (length calls)
     (ms @ [AssistantTurn (content_or_empty msg) (msg_tool_calls msg)] @ tms) = Inr c' \<Longrightarrow>
   chat_loop env guard c ms logs s calls =
     chat_loop env (guard + 1) c'
       (ms @ [AssistantTurn (content_or_empty msg) (msg_tool_calls msg)] @ tms) logs' s'
       (calls @ [ms @ [AssistantTurn (content_or_empty msg) (msg_tool_calls msg)] @ tms])"
  by (subst chat_loop.simps) (simp add: Let_def)

lemma run_tool_calls_result:
  "\<exists>x s'. run_tool_calls env tcs s logs tms = (x, s')"
  by (cases "run_tool_calls env tcs s logs tms") simp

text \<open>One round of the loop, by cases.\<close>

lemma chat_loop_cases:
  assumes "guard < 5"
  obtains
    (no_message) "first_message c = None"
  | (answer) msg where "first_message c = Some msg" "tool_calls_or_empty msg = []"
  | (tool_throws) msg e s' where "first_message c = Some msg" "tool_calls_or_empty msg \<noteq> []"
      "run_tool_calls env (tool_calls_or_empty msg) s logs [] = (Inl e, s')"
  | (model_throws) msg logs' tms s' e where "first_message c = Some msg"
      "tool_calls_or_empty msg \<noteq> []"
      "run_tool_calls env (tool_calls_or_empty msg) s logs [] = (Inr (logs', tms), s')"
      "create_completion env (length calls)
         (ms @ [AssistantTurn (content_or_empty msg) (msg_tool_calls msg)] @ tms) = Inl e"
  | (round) msg logs' tms s' c' where "first_message c = Some msg"
      "tool_calls_or_empty msg \<noteq> []"
      "run_tool_calls env (tool_calls_or_empty msg) s logs [] = (Inr (logs', tms), s')"
      "create_completion env (length calls)
         (ms @ [AssistantTurn (content_or_empty msg) (msg_tool_calls msg)] @ tms) = Inr c'"
proof (cases "first_message c")
  case None
  then show ?thesis by (rule no_message)
next
  case (Some msg)
  show ?thesis
  proof (cases "tool_calls_or_empty msg = []")
    case True
    with Some show ?thesis by (rule answer)
  next
    case False
    obtain x s' where run: "run_tool_calls env (tool_calls_or_empty msg) s logs [] = (x, s')"
      by (cases "run_tool_calls env (tool_calls_or_empty msg) s logs []") blast
    show ?thesis
    proof (cases x)
      case (Inl e)
      with Some False run show ?thesis by (auto intro: tool_throws)
    next
      case (Inr p)
      obtain logs' tms where p: "p = (logs', tms)" by (cases p)
      show ?thesis
      proof (cases "create_completion env (length calls)
         (ms @ [AssistantTurn (content_or_empty msg) (msg_tool_calls msg)] @ tms)")
        case (Inl e)
        with Some False run Inr p show ?thesis by (auto intro: model_throws)
      next
        case (Inr c')
        with Some False run \<open>x = Inr p\<close> p show ?thesis by (auto intro: round)
      qed
    qed
  qed
qed







text \<open>What a round adds to the log: one entry for each call, in the order of the calls.\<close>

lemma run_tool_calls_order:
  "run_tool_calls env tcs s logs tms = (Inr (logs', tms'), s') \<Longrightarrow>
   \<exists>new turns. logs' = logs @ new \<and> map log_name new = map call_name tcs
     \<and> tms' = tms @ turns
     \<and> turns = map2 (\<lambda>l tc. ToolTurn (log_output l) (tc_id tc)) new tcs
     \<and> length new = length tcs"
proof (induction tcs arbitrary: s logs tms)
  case Nil
  then show ?case by simp
next
  case (Cons tc tcs)
  from Cons.prems obtain j where j: "call_args env tc = Inr j"
    by (cases "call_args env tc") (simp_all add: Let_def)
  from Cons.prems j obtain out s1 where out: "callMcpTool env s (call_name tc) j = (Inr out, s1)"
    by (cases "callMcpTool env s (call_name tc) j")
       (auto simp add: Let_def split: sum.splits)
  from Cons.prems j out
  have "run_tool_calls env tcs s1 (logs @ [ToolLog (call_name tc) j (out_text out)])
          (tms @ [ToolTurn (out_text out) (tc_id tc)]) = (Inr (logs', tms'), s')"
    by (simp add: Let_def)
  from Cons.IH [OF this] obtain new turns where
    "logs' = (logs @ [ToolLog (call_name tc) j (out_text out)]) @ new"
    "map log_name new = map call_name tcs"
    "tms' = (tms @ [ToolTurn (out_text out) (tc_id tc)]) @ turns"
    "turns = map2 (\<lambda>l tc. ToolTurn (log_output l) (tc_id tc)) new tcs"
    "length new = length tcs"
    by blast
  then show ?case
    by (intro exI [of _ "ToolLog (call_name tc) j (out_text out) # new"]
        exI [of _ "ToolTurn (out_text out) (tc_id tc) # turns"]) simp
qed

lemma run_tool_calls_session:
  "run_tool_calls env tcs s logs tms = (Inr r, s') \<Longrightarrow> s' = session_after env s tcs"
proof (induction tcs arbitrary: s logs tms)
  case Nil
  then show ?case by simp
next
  case (Cons tc tcs)
  from Cons.prems obtain j where j: "call_args env tc = Inr j"
    by (cases "call_args env tc") (simp_all add: Let_def)
  from Cons.prems j obtain out s1 where out: "callMcpTool env s (call_name tc) j = (Inr out, s1)"
    by (cases "callMcpTool env s (call_name tc) j")
       (auto simp add: Let_def split: sum.splits)
  then have s1: "s1 = snd (mcp_call env s (call_name tc) (or_empty_object j))"
    by (auto simp add: callMcpTool_def split: prod.splits sum.splits)
  from Cons.prems j out
  have "run_tool_calls env tcs s1 (logs @ [ToolLog (call_name tc) j (out_text out)])
          (tms @ [ToolTurn (out_text out) (tc_id tc)]) = (Inr r, s')"
    by (simp add: Let_def)
  from Cons.IH [OF this] show ?case
    by (simp add: j s1)
qed





lemma logs_prefix:
  "outcome (chat_loop env guard c ms logs s calls) = Inr (Response st (Assistant text model logs')) \<Longrightarrow>
   \<exists>more. logs' = logs @ more"
proof (induction "5 - guard" arbitrary: guard c ms logs s calls)
  case 0
  then show ?case by (simp add: chat_loop_exhausted sentinel_def)
next
  case (Suc n)
  then have g: "guard < 5" by simp
  have n: "n = 5 - (guard + 1)" using Suc.hyps(2) by simp
  from g show ?case
  proof (cases rule: chat_loop_cases [where c = c and env = env and s = s and logs = logs
        and calls = calls and ms = ms])
    case no_message
    with Suc.prems show ?thesis by (simp add: chat_loop_no_message sentinel_def)
  next
    case (answer msg)
    with g Suc.prems show ?thesis by (simp add: chat_loop_answer)
  next
    case (tool_throws msg e0 s')
    with g Suc.prems show ?thesis by (simp add: chat_loop_tool_throws)
  next
    case (model_throws msg logs1 tms s' e0)
    with g Suc.prems show ?thesis by (simp add: chat_loop_model_throws)
  next
    case (round msg logs1 tms s' c')
    from run_tool_calls_order [OF round(3)] obtain new where new: "logs1 = logs @ new"
      by blast
    from Suc.prems have "outcome (chat_loop env (guard + 1) c'
          (ms @ [AssistantTurn (content_or_empty msg) (msg_tool_calls msg)] @ tms) logs1 s'
          (calls @ [ms @ [AssistantTurn (content_or_empty msg) (msg_tool_calls msg)] @ tms]))
        = Inr (Response st (Assistant text model logs'))"
      by (simp only: chat_loop_round [OF g round])
    from Suc.hyps(1) [OF n this] new show ?thesis by auto
  qed
qed




lemma chat_started:
  "initial_messages req = Some ms \<Longrightarrow> createOpenAIClient env = None \<Longrightarrow>
   connectMcpClient env = Inr init \<Longrightarrow>
   chat env req =
     \<lparr>response_of = close_and_catch env (chat_session env ms init),
      model_calls = sent (chat_session env ms init),
      final_session = Some (session (chat_session env ms init))\<rparr>"
  by (simp add: chat_def Let_def)

lemma chat_session_started:
  "listMcpTools env init = Inr tools \<Longrightarrow> tools \<noteq> [] \<Longrightarrow>
   create_completion env 0 ms = Inr first \<Longrightarrow>
   chat_session env ms init = chat_loop env 0 first ms [] init [ms]"
  by (simp add: chat_session_def)





lemma demo_request_messages:
  "initial_messages demo_request = Some [UserTurn ''Store value 7 called demo, then sum last 24h'']"
  by (simp add: initial_messages_def demo_request_def or_empty_object_def trim_def
      is_whitespace_def)





lemma store_call_parts:
  "call_name store_call = Some ''store''"
  "call_args (local_env m) store_call =
     Inr (JObj [(''value'', JNum (Finite 7)), (''description'', JStr ''demo'')])"
  "tc_id store_call = Some ''call_1''"
  by (simp_all add: call_name_def call_args_def store_call_def local_env_def demo_parse_def)

lemma sum_call_parts:
  "call_name sum_call = Some ''sum''"
  "call_args (local_env m) sum_call =
     Inr (JObj [(''from'', JStr ''2024-04-30T10:00:00.000Z''),
                (''to'', JStr ''2024-05-01T10:00:05.000Z'')])"
  "tc_id sum_call = Some ''call_2''"
  by (simp_all add: call_name_def call_args_def sum_call_def local_env_def demo_parse_def)

lemma local_store:
  "callMcpTool (local_env m) (empty_db, now # clock) (Some ''store'')
     (JObj [(''value'', JNum (Finite 7)), (''description'', JStr ''demo'')]) =
   (Inr (ToolOutput False ''{entry demo}''),
    \<lparr>entries = [\<lparr>entry_id = 1, entry_value = 7, entry_description = ''demo'',
                  entry_created_at = now\<rparr>], lastInsertRowid = 1\<rparr>, clock)"
  by (simp add: callMcpTool_def local_env_def local_call_def call_tool_handler_def
      or_empty_object_def trim_def is_whitespace_def insertEntry_def empty_db_def
      text_result_def flatten_result_def entry_json_def demo_stringify_def Let_def)

lemma local_sum:
  "callMcpTool (local_env m)
     (\<lparr>entries = [\<lparr>entry_id = 1, entry_value = 7, entry_description = ''demo'',
                  entry_created_at = ''2024-05-01T10:00:01.000Z''\<rparr>], lastInsertRowid = 1\<rparr>,
      now # clock) (Some ''sum'')
     (JObj [(''from'', JStr ''2024-04-30T10:00:00.000Z''),
            (''to'', JStr ''2024-05-01T10:00:05.000Z'')]) =
   (Inr (ToolOutput False ''7''),
    \<lparr>entries = [\<lparr>entry_id = 1, entry_value = 7, entry_description = ''demo'',
                  entry_created_at = ''2024-05-01T10:00:01.000Z''\<rparr>], lastInsertRowid = 1\<rparr>,
    clock)"
  by (simp add: callMcpTool_def local_env_def local_call_def call_tool_handler_def
      or_empty_object_def trim_def is_whitespace_def sumEntries_strings sumRange_sum_list
      in_range_def text_result_def flatten_result_def String_of_int_def digit_def Let_def)




lemma store_then_sum_round:
  assumes req: "initial_messages req = Some ms"
    and client: "createOpenAIClient env = None"
    and connect: "connectMcpClient env = Inr init"
    and listed: "listMcpTools env init = Inr tools" "tools \<noteq> []"
    and first: "create_completion env 0 ms = Inr first"
    and msg: "first_message first = Some msg" "msg_tool_calls msg = Some [store_tc, sum_tc]"
    and args: "call_args env store_tc = Inr store_args" "call_args env sum_tc = Inr sum_args"
    and store_res: "callMcpTool env init (call_name store_tc) store_args = (Inr store_out, mid)"
    and sum_res: "callMcpTool env mid (call_name sum_tc) sum_args = (Inr sum_out, final)"
    and second: "create_completion env 1
        (ms @ [AssistantTurn (content_or_empty msg) (Some [store_tc, sum_tc]),
               ToolTurn (out_text store_out) (tc_id store_tc), ToolTurn (out_text sum_out) (tc_id sum_tc)]) =
        Inr second"
    and answer: "first_message second = Some answer" "tool_calls_or_empty answer = []"
  shows "chat env req =
     \<lparr>response_of = Response 200 (Assistant (content_or_empty answer) (DEFAULT_MODEL env)
        [ToolLog (call_name store_tc) store_args (out_text store_out), ToolLog (call_name sum_tc) sum_args (out_text sum_out)]),
      model_calls = [ms, ms @ [AssistantTurn (content_or_empty msg) (Some [store_tc, sum_tc]),
               ToolTurn (out_text store_out) (tc_id store_tc), ToolTurn (out_text sum_out) (tc_id sum_tc)]],
      final_session = Some final\<rparr>"
proof -
  have tcs: "tool_calls_or_empty msg = [store_tc, sum_tc]"
    by (simp add: tool_calls_or_empty_def msg)
  have run: "run_tool_calls env (tool_calls_or_empty msg) init [] [] =
      (Inr ([ToolLog (call_name store_tc) store_args (out_text store_out), ToolLog (call_name sum_tc) sum_args (out_text sum_out)],
            [ToolTurn (out_text store_out) (tc_id store_tc), ToolTurn (out_text sum_out) (tc_id sum_tc)]), final)"
    by (simp add: tcs args store_res sum_res)
  have "chat_loop env 0 first ms [] init [ms] =
      chat_loop env (0 + 1) second
        (ms @ [AssistantTurn (content_or_empty msg) (msg_tool_calls msg)]
            @ [ToolTurn (out_text store_out) (tc_id store_tc), ToolTurn (out_text sum_out) (tc_id sum_tc)])
        [ToolLog (call_name store_tc) store_args (out_text store_out), ToolLog (call_name sum_tc) sum_args (out_text sum_out)] final
        ([ms] @ [ms @ [AssistantTurn (content_or_empty msg) (msg_tool_calls msg)]
            @ [ToolTurn (out_text store_out) (tc_id store_tc), ToolTurn (out_text sum_out) (tc_id sum_tc)]])"
    using second by (intro chat_loop_round [OF _ msg(1) _ run]) (simp_all add: tcs msg(2))
  also have "\<dots> =
      \<lparr>outcome = Inr (Response 200 (Assistant (content_or_empty answer) (DEFAULT_MODEL env)
         [ToolLog (call_name store_tc) store_args (out_text store_out), ToolLog (call_name sum_tc) sum_args (out_text sum_out)])),
       session = final,
       sent = [ms] @ [ms @ [AssistantTurn (content_or_empty msg) (msg_tool_calls msg)]
            @ [ToolTurn (out_text store_out) (tc_id store_tc), ToolTurn (out_text sum_out) (tc_id sum_tc)]]\<rparr>"
    by (rule chat_loop_answer [OF _ answer]) simp
  finally show ?thesis
    by (simp add: chat_started [OF req client connect] chat_session_started [OF listed first]
        close_and_catch_def msg(2))
qed

text \<open>
  C8. Within a round the calls are made one after the other, each on the state of the
  server the call before left, and the round appends one log entry and one tool turn for
  each call, in the order of the calls. The log returned with a response starts with
  every entry logged before, in the same order. For a chat model that asks for \<open>store\<close>
  and then \<open>sum\<close> and then answers in plain text, the response is 200 with that answer
  and a log of two entries, \<open>store\<close> first and \<open>sum\<close> second.
\<close>

theorem tool_calls_in_order:
  "(run_tool_calls env tcs s logs tms = (Inr (logs', tms'), s') \<longrightarrow>
      (\<exists>new. logs' = logs @ new \<and> map log_name new = map call_name tcs
         \<and> tms' = tms @ map2 (\<lambda>l tc. ToolTurn (log_output l) (tc_id tc)) new tcs)
      \<and> s' = session_after env s tcs)
   \<and> (outcome (chat_loop env guard c ms logs s calls) =
         Inr (Response st (Assistant reply model returned)) \<longrightarrow>
       (\<exists>more. returned = logs @ more))
   \<and> (initial_messages req = Some ms \<and> createOpenAIClient env = None
       \<and> connectMcpClient env = Inr init \<and> listMcpTools env init = Inr tools \<and> tools \<noteq> []
       \<and> create_completion env 0 ms = Inr first \<and> first_message first = Some msg
       \<and> msg_tool_calls msg = Some [store_tc, sum_tc]
       \<and> call_name store_tc = Some ''store'' \<and> call_name sum_tc = Some ''sum''
       \<and> call_args env store_tc = Inr store_args \<and> call_args env sum_tc = Inr sum_args
       \<and> callMcpTool env init (Some ''store'') store_args = (Inr store_out, mid)
       \<and> callMcpTool env mid (Some ''sum'') sum_args = (Inr sum_out, final)
       \<and> create_completion env 1
            (ms @ [AssistantTurn (content_or_empty msg) (Some [store_tc, sum_tc]),
                   ToolTurn (out_text store_out) (tc_id store_tc), ToolTurn (out_text sum_out) (tc_id sum_tc)]) =
          Inr second
       \<and> first_message second = Some answer \<and> tool_calls_or_empty answer = [] \<longrightarrow>
       response_of (chat env req) =
         Response 200 (Assistant (content_or_empty answer) (DEFAULT_MODEL env)
           [ToolLog (Some ''store'') store_args (out_text store_out), ToolLog (Some ''sum'') sum_args (out_text sum_out)])
       \<and> final_session (chat env req) = Some final)"
proof (intro conjI impI)
  assume run: "run_tool_calls env tcs s logs tms = (Inr (logs', tms'), s')"
  from run_tool_calls_order [OF run]
  show "\<exists>new. logs' = logs @ new \<and> map log_name new = map call_name tcs
         \<and> tms' = tms @ map2 (\<lambda>l tc. ToolTurn (log_output l) (tc_id tc)) new tcs"
    by blast
  from run show "s' = session_after env s tcs"
    by (rule run_tool_calls_session)
next
  assume "outcome (chat_loop env guard c ms logs s calls) =
         Inr (Response st (Assistant reply model returned))"
  then show "\<exists>more. returned = logs @ more" by (rule logs_prefix)
next
  assume h: "initial_messages req = Some ms \<and> createOpenAIClient env = None
       \<and> connectMcpClient env = Inr init \<and> listMcpTools env init = Inr tools \<and> tools \<noteq> []
       \<and> create_completion env 0 ms = Inr first \<and> first_message first = Some msg
       \<and> msg_tool_calls msg = Some [store_tc, sum_tc]
       \<and> call_name store_tc = Some ''store'' \<and> call_name sum_tc = Some ''sum''
       \<and> call_args env store_tc = Inr store_args \<and> call_args env sum_tc = Inr sum_args
       \<and> callMcpTool env init (Some ''store'') store_args = (Inr store_out, mid)
       \<and> callMcpTool env mid (Some ''sum'') sum_args = (Inr sum_out, final)
       \<and> create_completion env 1
            (ms @ [AssistantTurn (content_or_empty msg) (Some [store_tc, sum_tc]),
                   ToolTurn (out_text store_out) (tc_id store_tc), ToolTurn (out_text sum_out) (tc_id sum_tc)]) =
          Inr second
       \<and> first_message second = Some answer \<and> tool_calls_or_empty answer = []"
  then have run: "chat env req =
     \<lparr>response_of = Response 200 (Assistant (content_or_empty answer) (DEFAULT_MODEL env)
        [ToolLog (call_name store_tc) store_args (out_text store_out), ToolLog (call_name sum_tc) sum_args (out_text sum_out)]),
      model_calls = [ms, ms @ [AssistantTurn (content_or_empty msg) (Some [store_tc, sum_tc]),
               ToolTurn (out_text store_out) (tc_id store_tc), ToolTurn (out_text sum_out) (tc_id sum_tc)]],
      final_session = Some final\<rparr>"
    by (intro store_then_sum_round [where init = init and tools = tools and first = first
          and mid = mid and second = second]) simp_all
  from run h show "response_of (chat env req) =
         Response 200 (Assistant (content_or_empty answer) (DEFAULT_MODEL env)
           [ToolLog (Some ''store'') store_args (out_text store_out), ToolLog (Some ''sum'') sum_args (out_text sum_out)])"
    by simp
  from run show "final_session (chat env req) = Some final" by simp
qed



lemma local_round:
  "run_tool_calls (local_env m) [store_call, sum_call]
     (empty_db, [''2024-05-01T10:00:01.000Z'', ''2024-05-01T10:00:02.000Z'']) [] [] =
   (Inr ([ToolLog (Some ''store'')
            (JObj [(''value'', JNum (Finite 7)), (''description'', JStr ''demo'')]) ''{entry demo}'',
          ToolLog (Some ''sum'')
            (JObj [(''from'', JStr ''2024-04-30T10:00:00.000Z''),
                   (''to'', JStr ''2024-05-01T10:00:05.000Z'')]) ''7''],
         [ToolTurn ''{entry demo}'' (Some ''call_1''), ToolTurn ''7'' (Some ''call_2'')]),
    \<lparr>entries = [\<lparr>entry_id = 1, entry_value = 7, entry_description = ''demo'',
                  entry_created_at = ''2024-05-01T10:00:01.000Z''\<rparr>], lastInsertRowid = 1\<rparr>, [])"
  by (simp add: store_call_parts sum_call_parts local_store local_sum)

theorem tool_calls_in_order_witness:
  "response_of (chat (local_env store_then_sum_model) demo_request) =
     Response 200 (Assistant ''Stored 7 as demo; the sum of the last 24h is 7.'' ''gpt-4o-mini''
       [ToolLog (Some ''store'')
          (JObj [(''value'', JNum (Finite 7)), (''description'', JStr ''demo'')]) ''{entry demo}'',
        ToolLog (Some ''sum'')
          (JObj [(''from'', JStr ''2024-04-30T10:00:00.000Z''),
                 (''to'', JStr ''2024-05-01T10:00:05.000Z'')]) ''7''])
   \<and> final_session (chat (local_env store_then_sum_model) demo_request) =
     Some (\<lparr>entries = [\<lparr>entry_id = 1, entry_value = 7, entry_description = ''demo'',
                    entry_created_at = ''2024-05-01T10:00:01.000Z''\<rparr>], lastInsertRowid = 1\<rparr>, [])
   \<and> session_after (local_env store_then_sum_model)
        (empty_db, [''2024-05-01T10:00:01.000Z'', ''2024-05-01T10:00:02.000Z''])
        [store_call, sum_call] =
       (\<lparr>entries = [\<lparr>entry_id = 1, entry_value = 7, entry_description = ''demo'',
                  entry_created_at = ''2024-05-01T10:00:01.000Z''\<rparr>], lastInsertRowid = 1\<rparr>, [])
   \<and> (\<exists>more. [ToolLog (Some ''loop'') (JObj []) ''Unknown tool: loop''] =
          [ToolLog (Some ''loop'') (JObj []) ''Unknown tool: loop''] @ more)"
proof -
  have "initial_messages demo_request =
          Some [UserTurn ''Store value 7 called demo, then sum last 24h'']
       \<and> createOpenAIClient (local_env store_then_sum_model) = None
       \<and> connectMcpClient (local_env store_then_sum_model) =
           Inr (empty_db, [''2024-05-01T10:00:01.000Z'', ''2024-05-01T10:00:02.000Z''])
       \<and> listMcpTools (local_env store_then_sum_model)
            (empty_db, [''2024-05-01T10:00:01.000Z'', ''2024-05-01T10:00:02.000Z'']) = Inr toolsList
       \<and> toolsList \<noteq> []
       \<and> create_completion (local_env store_then_sum_model) 0
            [UserTurn ''Store value 7 called demo, then sum last 24h''] =
           Inr (assistant_calls [store_call, sum_call])
       \<and> first_message (assistant_calls [store_call, sum_call]) =
           Some (Message None (Some [store_call, sum_call]))
       \<and> msg_tool_calls (Message None (Some [store_call, sum_call])) = Some [store_call, sum_call]
       \<and> call_name store_call = Some ''store'' \<and> call_name sum_call = Some ''sum''
       \<and> call_args (local_env store_then_sum_model) store_call =
           Inr (JObj [(''value'', JNum (Finite 7)), (''description'', JStr ''demo'')])
       \<and> call_args (local_env store_then_sum_model) sum_call =
           Inr (JObj [(''from'', JStr ''2024-04-30T10:00:00.000Z''),
                      (''to'', JStr ''2024-05-01T10:00:05.000Z'')])
       \<and> callMcpTool (local_env store_then_sum_model)
            (empty_db, [''2024-05-01T10:00:01.000Z'', ''2024-05-01T10:00:02.000Z''])
            (Some ''store'')
            (JObj [(''value'', JNum (Finite 7)), (''description'', JStr ''demo'')]) =
           (Inr (ToolOutput False ''{entry demo}''),
            \<lparr>entries = [\<lparr>entry_id = 1, entry_value = 7, entry_description = ''demo'',
                  entry_created_at = ''2024-05-01T10:00:01.000Z''\<rparr>], lastInsertRowid = 1\<rparr>,
            [''2024-05-01T10:00:02.000Z''])
       \<and> callMcpTool (local_env store_then_sum_model)
            (\<lparr>entries = [\<lparr>entry_id = 1, entry_value = 7, entry_description = ''demo'',
                  entry_created_at = ''2024-05-01T10:00:01.000Z''\<rparr>], lastInsertRowid = 1\<rparr>,
             [''2024-05-01T10:00:02.000Z''])
            (Some ''sum'')
            (JObj [(''from'', JStr ''2024-04-30T10:00:00.000Z''),
                   (''to'', JStr ''2024-05-01T10:00:05.000Z'')]) =
           (Inr (ToolOutput False ''7''),
            \<lparr>entries = [\<lparr>entry_id = 1, entry_value = 7, entry_description = ''demo'',
                  entry_created_at = ''2024-05-01T10:00:01.000Z''\<rparr>], lastInsertRowid = 1\<rparr>,
            [])
       \<and> create_completion (local_env store_then_sum_model) 1
            ([UserTurn ''Store value 7 called demo, then sum last 24h'']
             @ [AssistantTurn (content_or_empty (Message None (Some [store_call, sum_call])))
                  (Some [store_call, sum_call]),
                ToolTurn (out_text (ToolOutput False ''{entry demo}'')) (tc_id store_call),
                ToolTurn (out_text (ToolOutput False ''7'')) (tc_id sum_call)]) =
           Inr (assistant_says ''Stored 7 as demo; the sum of the last 24h is 7.'')
       \<and> first_message (assistant_says ''Stored 7 as demo; the sum of the last 24h is 7.'') =
           Some (Message (Some ''Stored 7 as demo; the sum of the last 24h is 7.'') None)
       \<and> tool_calls_or_empty (Message (Some ''Stored 7 as demo; the sum of the last 24h is 7.'') None)
           = []"
    by (simp add: demo_request_messages store_call_parts sum_call_parts local_store local_sum)
       (simp add: local_env_def store_then_sum_model_def toolsList_def assistant_calls_def
          assistant_says_def first_message_def tool_calls_or_empty_def)
  from tool_calls_in_order [THEN conjunct2, THEN conjunct2, rule_format, OF this]
  have run: "response_of (chat (local_env store_then_sum_model) demo_request) =
     Response 200 (Assistant ''Stored 7 as demo; the sum of the last 24h is 7.'' ''gpt-4o-mini''
       [ToolLog (Some ''store'')
          (JObj [(''value'', JNum (Finite 7)), (''description'', JStr ''demo'')]) ''{entry demo}'',
        ToolLog (Some ''sum'')
          (JObj [(''from'', JStr ''2024-04-30T10:00:00.000Z''),
                 (''to'', JStr ''2024-05-01T10:00:05.000Z'')]) ''7''])
   \<and> final_session (chat (local_env store_then_sum_model) demo_request) =
     Some (\<lparr>entries = [\<lparr>entry_id = 1, entry_value = 7, entry_description = ''demo'',
                    entry_created_at = ''2024-05-01T10:00:01.000Z''\<rparr>], lastInsertRowid = 1\<rparr>, [])"
    by (simp add: content_or_empty_def local_env_def)
  have a: "session_after (local_env store_then_sum_model)
        (empty_db, [''2024-05-01T10:00:01.000Z'', ''2024-05-01T10:00:02.000Z''])
        [store_call, sum_call] =
       (\<lparr>entries = [\<lparr>entry_id = 1, entry_value = 7, entry_description = ''demo'',
                  entry_created_at = ''2024-05-01T10:00:01.000Z''\<rparr>], lastInsertRowid = 1\<rparr>, [])"
    using tool_calls_in_order [where env = "local_env store_then_sum_model"
        and tcs = "[store_call, sum_call]"
        and s = "(empty_db, [''2024-05-01T10:00:01.000Z'', ''2024-05-01T10:00:02.000Z''])"
        and logs = "[]" and tms = "[]", THEN conjunct1, rule_format, OF local_round]
    by simp
  have b: "\<exists>more. [ToolLog (Some ''loop'') (JObj []) ''Unknown tool: loop''] =
          [ToolLog (Some ''loop'') (JObj []) ''Unknown tool: loop''] @ more"
    using tool_calls_in_order [where env = looping_env and guard = 5 and c = "Completion None"
        and ms = "[]" and logs = "[ToolLog (Some ''loop'') (JObj []) ''Unknown tool: loop'']"
        and s = 0 and calls = "[]" and st = 200 and reply = "''(stopped after max tool iterations)''"
        and model = "''gpt-4o-mini''"
        and returned = "[ToolLog (Some ''loop'') (JObj []) ''Unknown tool: loop'']",
        THEN conjunct2, THEN conjunct1]
    by (simp add: chat_loop_exhausted sentinel_def looping_env_def)
  from run a b show ?thesis by (intro conjI) simp_all
qed



lemma first_message_absent:
  "choices completion = None \<or> choices completion = Some []
     \<or> (\<exists>rest. choices completion = Some (None # rest)) \<Longrightarrow>
   first_message completion = None"
  by (auto simp add: first_message_def)

text \<open>
  C10. When the completion the loop reads has no message (the choices are missing or
  empty, or the first choice has no message), in any round, the loop ends there and the
  response is 200 with the content \<open>(stopped after max tool iterations)\<close> and the log of
  the calls made so far: the same response as after the last round, and no error.
\<close>

theorem no_message_sentinel:
  "choices completion = None \<or> choices completion = Some []
     \<or> (\<exists>rest. choices completion = Some (None # rest)) \<Longrightarrow>
   chat_loop env guard completion messages toolLogs s calls =
     \<lparr>outcome = Inr (Response 200
        (Assistant ''(stopped after max tool iterations)'' (DEFAULT_MODEL env) toolLogs)),
      session = s, sent = calls\<rparr>
   \<and> close_and_catch env (chat_loop env guard completion messages toolLogs s calls) =
       Response 200 (Assistant ''(stopped after max tool iterations)'' (DEFAULT_MODEL env) toolLogs)"
  by (simp add: chat_loop_no_message [OF first_message_absent] sentinel_def close_and_catch_def)

lemma first_round_one_call:
  assumes listed: "listMcpTools env init = Inr tools" "tools \<noteq> []"
    and first: "create_completion env 0 ms = Inr first"
    and msg: "first_message first = Some msg" "msg_tool_calls msg = Some [tc]"
    and args: "call_args env tc = Inr a"
    and res: "callMcpTool env init (call_name tc) a = (Inr out, mid)"
    and second: "create_completion env 1
        (ms @ [AssistantTurn (content_or_empty msg) (Some [tc]),
               ToolTurn (out_text out) (tc_id tc)]) = Inr second"
  shows "chat_session env ms init =
     chat_loop env 1 second
       (ms @ [AssistantTurn (content_or_empty msg) (Some [tc]), ToolTurn (out_text out) (tc_id tc)])
       [ToolLog (call_name tc) a (out_text out)] mid
       [ms, ms @ [AssistantTurn (content_or_empty msg) (Some [tc]),
                  ToolTurn (out_text out) (tc_id tc)]]"
proof -
  have tcs: "tool_calls_or_empty msg = [tc]"
    by (simp add: tool_calls_or_empty_def msg)
  have run: "run_tool_calls env (tool_calls_or_empty msg) init [] [] =
      (Inr ([ToolLog (call_name tc) a (out_text out)], [ToolTurn (out_text out) (tc_id tc)]), mid)"
    by (simp add: tcs args res)
  have "chat_loop env 0 first ms [] init [ms] =
      chat_loop env (0 + 1) second
        (ms @ [AssistantTurn (content_or_empty msg) (msg_tool_calls msg)]
            @ [ToolTurn (out_text out) (tc_id tc)])
        [ToolLog (call_name tc) a (out_text out)] mid
        ([ms] @ [ms @ [AssistantTurn (content_or_empty msg) (msg_tool_calls msg)]
            @ [ToolTurn (out_text out) (tc_id tc)]])"
    using second by (intro chat_loop_round [OF _ msg(1) _ run]) (simp_all add: tcs msg(2))
  then show ?thesis
    by (simp add: chat_session_started [OF listed first] msg(2))
qed

lemma silent_run:
  "chat_session (local_env store_then_silent_model)
     [UserTurn ''Store value 7 called demo, then sum last 24h'']
     (empty_db, [''2024-05-01T10:00:01.000Z'', ''2024-05-01T10:00:02.000Z'']) =
   chat_loop (local_env store_then_silent_model) 1 (Completion (Some []))
     ([UserTurn ''Store value 7 called demo, then sum last 24h'']
      @ [AssistantTurn [] (Some [store_call]), ToolTurn ''{entry demo}'' (Some ''call_1'')])
     [ToolLog (Some ''store'')
        (JObj [(''value'', JNum (Finite 7)), (''description'', JStr ''demo'')]) ''{entry demo}'']
     (\<lparr>entries = [\<lparr>entry_id = 1, entry_value = 7, entry_description = ''demo'',
                   entry_created_at = ''2024-05-01T10:00:01.000Z''\<rparr>], lastInsertRowid = 1\<rparr>,
      [''2024-05-01T10:00:02.000Z''])
     [[UserTurn ''Store value 7 called demo, then sum last 24h''],
      [UserTurn ''Store value 7 called demo, then sum last 24h'']
      @ [AssistantTurn [] (Some [store_call]), ToolTurn ''{entry demo}'' (Some ''call_1'')]]"
proof -
  have "chat_session (local_env store_then_silent_model)
     [UserTurn ''Store value 7 called demo, then sum last 24h'']
     (empty_db, [''2024-05-01T10:00:01.000Z'', ''2024-05-01T10:00:02.000Z'']) =
   chat_loop (local_env store_then_silent_model) 1 (Completion (Some []))
     ([UserTurn ''Store value 7 called demo, then sum last 24h'']
      @ [AssistantTurn (content_or_empty (Message None (Some [store_call]))) (Some [store_call]),
         ToolTurn (out_text (ToolOutput False ''{entry demo}'')) (tc_id store_call)])
     [ToolLog (call_name store_call)
        (JObj [(''value'', JNum (Finite 7)), (''description'', JStr ''demo'')])
        (out_text (ToolOutput False ''{entry demo}''))]
     (\<lparr>entries = [\<lparr>entry_id = 1, entry_value = 7, entry_description = ''demo'',
                   entry_created_at = ''2024-05-01T10:00:01.000Z''\<rparr>], lastInsertRowid = 1\<rparr>,
      [''2024-05-01T10:00:02.000Z''])
     [[UserTurn ''Store value 7 called demo, then sum last 24h''],
      [UserTurn ''Store value 7 called demo, then sum last 24h'']
      @ [AssistantTurn (content_or_empty (Message None (Some [store_call]))) (Some [store_call]),
         ToolTurn (out_text (ToolOutput False ''{entry demo}'')) (tc_id store_call)]]"
    by (rule first_round_one_call [where tools = toolsList
          and first = "assistant_calls [store_call]"])
       (simp_all add: store_call_parts local_store,
        simp_all add: local_env_def store_then_silent_model_def toolsList_def
          assistant_calls_def first_message_def)
  then show ?thesis
    by (simp add: store_call_parts content_or_empty_def)
qed

theorem no_message_sentinel_witness:
  "choices (Completion (Some [])) = Some []
   \<and> response_of (chat (local_env store_then_silent_model) demo_request) =
     Response 200 (Assistant ''(stopped after max tool iterations)'' ''gpt-4o-mini''
       [ToolLog (Some ''store'')
          (JObj [(''value'', JNum (Finite 7)), (''description'', JStr ''demo'')]) ''{entry demo}''])"
proof -
  have absent: "choices (Completion (Some [])) = None \<or> choices (Completion (Some [])) = Some []
     \<or> (\<exists>rest. choices (Completion (Some [])) = Some (None # rest))"
    by simp
  have "response_of (chat (local_env store_then_silent_model) demo_request) =
      close_and_catch (local_env store_then_silent_model)
        (chat_session (local_env store_then_silent_model)
           [UserTurn ''Store value 7 called demo, then sum last 24h'']
           (empty_db, [''2024-05-01T10:00:01.000Z'', ''2024-05-01T10:00:02.000Z'']))"
    by (subst chat_started [OF demo_request_messages]) (simp_all add: local_env_def)
  then show ?thesis
    unfolding silent_run
    by (simp add: no_message_sentinel [OF absent] local_env_def close_and_catch_def)
qed





















end
